theory Spec2Isabelle
  imports Main
begin

section \<open>The data client of \<^verbatim>\<open>python/ray/util/client/dataclient.py\<close>\<close>

text \<open>
  The class \<^verbatim>\<open>DataClient\<close> multiplexes requests of many caller threads over one
  bidirectional gRPC stream. The embedding is a record of the object's fields and one
  HOL function per method. Every block the source runs under a lock
  (\<^verbatim>\<open>with self.lock\<close>, \<^verbatim>\<open>with self.cv\<close>) is one atomic function on the record; what
  other threads do while a caller sleeps in \<^verbatim>\<open>cv.wait_for\<close> is an explicit schedule
  of state transformers.
\<close>

subsection \<open>Messages\<close>

text \<open>
  \<^verbatim>\<open>ray_client_pb2.DataRequest\<close> and \<^verbatim>\<open>DataResponse\<close>: the correlation field
  \<^verbatim>\<open>req_id\<close> and a payload, which this module never inspects.
\<close>

record DataRequest =
  req_id :: int
  req_payload :: string

record DataResponse =
  resp_req_id :: int
  resp_payload :: string

text \<open>
  An f-string is kept as its list of fragments: literal text and the interpolated
  message objects, so that no rendering of a protobuf message has to be invented.
\<close>

datatype fragment = Lit string | ReqFrag DataRequest | RespFrag DataResponse

type_synonym message = "fragment list"

datatype error = ConnectionError message | AssertionError | KeyError int

text \<open>
  What calling a registered callback does: it returns, raises an instance of
  \<^verbatim>\<open>Exception\<close>, or raises a \<^verbatim>\<open>BaseException\<close> that is not an \<^verbatim>\<open>Exception\<close>
  (\<^verbatim>\<open>KeyboardInterrupt\<close>, \<^verbatim>\<open>SystemExit\<close>).
\<close>

datatype cb_outcome = Returns | RaisesException | RaisesBaseException

type_synonym ResponseCallable = "DataResponse \<Rightarrow> cb_outcome"

text \<open>
  An object passed to \<^verbatim>\<open>_async_send\<close> as \<^verbatim>\<open>callback\<close>: its truth value, which
  \<^verbatim>\<open>if callback:\<close> tests (true for a function object, false for an object whose
  \<^verbatim>\<open>__bool__\<close> or \<^verbatim>\<open>__len__\<close> says so), and what calling it does.
\<close>

record callback_object =
  truth_value :: bool
  on_call :: ResponseCallable

subsection \<open>The object's state\<close>

datatype level = DEBUG | INFO | EXCEPTION

datatype thread = DataThread | KeepaliveThread

text \<open>
  The calls the object makes on its collaborators, in the order it makes them: the
  logger, the condition variable, the two threads, a popped callback, and the
  session's \<^verbatim>\<open>ray.util.disconnect\<close>.
\<close>

datatype effect =
    Log level message
  | NotifyAll
  | Invoke int DataResponse
  | Disconnect
  | ThreadStart thread
  | ThreadJoin thread

record DataClient =
  request_queue :: "DataRequest option list"
  stop_keepalive :: bool
  ready_data :: "int \<rightharpoonup> DataResponse"
  asyncio_waiting_data :: "int \<rightharpoonup> ResponseCallable"
  self_req_id :: int
  in_shutdown :: bool
  effects :: "effect list"

definition INT32_MAX :: int where
  "INT32_MAX = 2 ^ 31 - 1"

definition emit :: "effect \<Rightarrow> DataClient \<Rightarrow> DataClient" where
  "emit e s = s\<lparr>effects := effects s @ [e]\<rparr>"

text \<open>\<^verbatim>\<open>queue.Queue.put\<close> on the unbounded queue; \<open>None\<close> is the close sentinel.\<close>

definition queue_put :: "DataRequest option \<Rightarrow> DataClient \<Rightarrow> DataClient" where
  "queue_put x s = s\<lparr>request_queue := request_queue s @ [x]\<rparr>"

text \<open>
  Modelled from the spec: \<^verbatim>\<open>ray.util.disconnect\<close> is the externally-owned client
  disconnect procedure; its code is not part of this module, so only the call is recorded.
\<close>

definition disconnect :: "DataClient \<Rightarrow> DataClient" where
  "disconnect s = emit Disconnect s"

text \<open>\<^verbatim>\<open>__init__\<close>: empty queue and tables, counter 0, not shut down, both threads started.\<close>

definition init_client :: DataClient where
  "init_client =
     \<lparr>request_queue = [], stop_keepalive = False, ready_data = Map.empty,
      asyncio_waiting_data = Map.empty, self_req_id = 0, in_shutdown = False,
      effects = [ThreadStart DataThread, ThreadStart KeepaliveThread]\<rparr>"

subsection \<open>\<^verbatim>\<open>_next_id\<close>\<close>

text \<open>
  The counter is a Python integer, so there is no overflow of its own: the reset to 1 is
  the comparison with \<^verbatim>\<open>INT32_MAX\<close>. The \<^verbatim>\<open>assert\<close> is a branch of the model; when
  it fails the counter has already been written.
\<close>

definition next_id :: "DataClient \<Rightarrow> (error + int) \<times> DataClient" where
  "next_id s =
     (let s1 = s\<lparr>self_req_id := self_req_id s + 1\<rparr>;
          s2 = (if self_req_id s1 > INT32_MAX then s1\<lparr>self_req_id := 1\<rparr> else s1)
      in if self_req_id s2 \<noteq> 0 then (Inr (self_req_id s2), s2) else (Inl AssertionError, s2))"

text \<open>\<open>n\<close> successive calls of \<^verbatim>\<open>_next_id\<close>, with the identifiers they return in order.\<close>

fun next_ids :: "nat \<Rightarrow> DataClient \<Rightarrow> (error + int list) \<times> DataClient" where
  "next_ids 0 s = (Inr [], s)"
| "next_ids (Suc n) s =
     (case next_id s of
        (Inl e, s1) \<Rightarrow> (Inl e, s1)
      | (Inr r, s1) \<Rightarrow>
          (case next_ids n s1 of
             (Inl e, s2) \<Rightarrow> (Inl e, s2)
           | (Inr rs, s2) \<Rightarrow> (Inr (r # rs), s2)))"

subsection \<open>\<^verbatim>\<open>_data_main\<close>: the inbound read loop\<close>

text \<open>
  One pass through the body of \<^verbatim>\<open>for response in resp_stream\<close>. The body
  completes, and the loop goes on to the next response, or it leaves by an exception that
  neither \<^verbatim>\<open>except\<close> clause catches and that ends the thread.
\<close>

datatype completion = Completed | Uncaught

definition handle_response :: "DataClient \<Rightarrow> DataResponse \<Rightarrow> completion \<times> DataClient" where
  "handle_response s response =
     (if resp_req_id response = 0
      then (Completed, emit (Log DEBUG [Lit ''Got unawaited response '', RespFrag response]) s)
      else
        (case asyncio_waiting_data s (resp_req_id response) of
           Some callback \<Rightarrow>
             (let s1 = s\<lparr>asyncio_waiting_data :=
                           (asyncio_waiting_data s)(resp_req_id response := None)\<rparr>;
                  s2 = emit (Invoke (resp_req_id response) response) s1
              in case callback response of
                   Returns \<Rightarrow> (Completed, s2)
                 | RaisesException \<Rightarrow> (Completed, emit (Log EXCEPTION [Lit ''Callback error:'']) s2)
                 | RaisesBaseException \<Rightarrow> (Uncaught, s2))
         | None \<Rightarrow>
             (Completed,
              emit NotifyAll
                (s\<lparr>ready_data := (ready_data s)(resp_req_id response \<mapsto> response)\<rparr>))))"

fun data_loop :: "DataClient \<Rightarrow> DataResponse list \<Rightarrow> completion \<times> DataClient" where
  "data_loop s [] = (Completed, s)"
| "data_loop s (response # rest) =
     (case handle_response s response of
        (Uncaught, s1) \<Rightarrow> (Uncaught, s1)
      | (Completed, s1) \<Rightarrow> data_loop s1 rest)"

text \<open>
  How iterating the response stream ends: the iterator is exhausted (the call completed
  with status OK), or it raises \<^verbatim>\<open>grpc.RpcError\<close> with a status code.
\<close>

datatype StatusCode =
    CANCELLED | UNKNOWN | INVALID_ARGUMENT | DEADLINE_EXCEEDED | NOT_FOUND | ALREADY_EXISTS
  | PERMISSION_DENIED | RESOURCE_EXHAUSTED | FAILED_PRECONDITION | ABORTED | OUT_OF_RANGE
  | UNIMPLEMENTED | INTERNAL | UNAVAILABLE | DATA_LOSS | UNAUTHENTICATED

datatype stream_end = StreamExhausted | RpcError StatusCode

text \<open>The handler \<^verbatim>\<open>except grpc.RpcError as e\<close>.\<close>

definition on_rpc_error :: "StatusCode \<Rightarrow> DataClient \<Rightarrow> DataClient" where
  "on_rpc_error code s =
     (let s1 = emit NotifyAll (s\<lparr>in_shutdown := True\<rparr>)
      in if code = CANCELLED then emit (Log INFO [Lit ''Cancelling data channel'']) s1
         else if code \<in> {UNAVAILABLE, RESOURCE_EXHAUSTED}
         then emit (Log INFO [Lit ''Server disconnected from data channel'']) s1
         else emit (Log EXCEPTION [Lit ''Got Error from data channel -- shutting down:'']) s1)"

definition data_main :: "DataClient \<Rightarrow> DataResponse list \<Rightarrow> stream_end \<Rightarrow> completion \<times> DataClient" where
  "data_main s responses ending =
     (case data_loop s responses of
        (Uncaught, s1) \<Rightarrow> (Uncaught, s1)
      | (Completed, s1) \<Rightarrow>
          (case ending of
             StreamExhausted \<Rightarrow> (Completed, s1)
           | RpcError code \<Rightarrow> (Completed, on_rpc_error code s1)))"

subsection \<open>\<^verbatim>\<open>close\<close>\<close>

text \<open>
  \<^verbatim>\<open>__init__\<close> sets \<^verbatim>\<open>request_queue\<close>, \<^verbatim>\<open>data_thread\<close> and \<^verbatim>\<open>keepalive_thread\<close> and
  nothing in the class sets them to \<open>None\<close>, so the three \<^verbatim>\<open>is not None\<close> guards are true.
\<close>

definition close :: "DataClient \<Rightarrow> DataClient" where
  "close s =
     (let s1 = s\<lparr>stop_keepalive := True\<rparr>;
          s2 = queue_put None s1;
          s3 = emit (ThreadJoin DataThread) s2
      in emit (ThreadJoin KeepaliveThread) s3)"

text \<open>
  \<^verbatim>\<open>iter(self.request_queue.get, None)\<close>, the outbound half of the stream: the requests
  it yields from a queue, and whether it has met the sentinel and stopped (otherwise it
  blocks on the empty queue).
\<close>

fun request_iter :: "DataRequest option list \<Rightarrow> DataRequest list \<times> bool" where
  "request_iter [] = ([], False)"
| "request_iter (None # q) = ([], True)"
| "request_iter (Some r # q) = (case request_iter q of (rs, stopped) \<Rightarrow> (r # rs, stopped))"

subsection \<open>\<^verbatim>\<open>_blocking_send\<close> and \<^verbatim>\<open>_async_send\<close>\<close>

definition terminated_msg :: message where
  "terminated_msg =
     [Lit (''Request can'' @ [CHR 0x27] @ ''t be sent because the data channel is '' @
           ''terminated. This is likely because the data channel '' @
           ''disconnected at some point before this request was '' @
           ''prepared. Ray Client has been disconnected.'')]"

definition in_flight_msg :: "DataRequest \<Rightarrow> message" where
  "in_flight_msg req =
     [Lit (''Sending request failed because the data channel '' @
           ''terminated. This is usually due to an error '' @
           ''in handling the most recent request: ''),
      ReqFrag req,
      Lit (''. Ray Client '' @ ''has been disconnected.'')]"

text \<open>
  \<^verbatim>\<open>Condition.wait_for(predicate)\<close> without a timeout: evaluate the predicate, sleep
  while it is false, evaluate again when woken. The caller holds the lock whenever it
  evaluates; each element of the schedule is what the other threads do to the object
  between two evaluations. With the schedule used up and the predicate false the caller
  is never woken again: the first component is \<open>False\<close>.
\<close>

type_synonym schedule = "(DataClient \<Rightarrow> DataClient) list"

fun wait_for :: "(DataClient \<Rightarrow> bool) \<Rightarrow> DataClient \<Rightarrow> schedule \<Rightarrow> bool \<times> DataClient" where
  "wait_for p s [] = (p s, s)"
| "wait_for p s (e # es) = (if p s then (True, s) else wait_for p (e s) es)"

datatype 'a outcome = Returned 'a | Raised error | Blocked

definition ready_or_shutdown :: "int \<Rightarrow> DataClient \<Rightarrow> bool" where
  "ready_or_shutdown rid s \<longleftrightarrow> ready_data s rid \<noteq> None \<or> in_shutdown s"

text \<open>The rest of the \<^verbatim>\<open>with self.cv\<close> block, once \<^verbatim>\<open>wait_for\<close> has returned.\<close>

definition blocking_send_woken :: "DataClient \<Rightarrow> int \<Rightarrow> DataRequest \<Rightarrow> DataResponse outcome \<times> DataClient" where
  "blocking_send_woken s rid req =
     (if in_shutdown s
      then (Raised (ConnectionError (in_flight_msg req)), disconnect s)
      else
        (case ready_data s rid of
           None \<Rightarrow> (Raised (KeyError rid), s)
         | Some data \<Rightarrow> (Returned data, s\<lparr>ready_data := (ready_data s)(rid := None)\<rparr>)))"

definition blocking_send :: "DataClient \<Rightarrow> DataRequest \<Rightarrow> schedule \<Rightarrow> DataResponse outcome \<times> DataClient" where
  "blocking_send s req sched =
     (if in_shutdown s
      then (Raised (ConnectionError terminated_msg), disconnect s)
      else
        (case next_id s of
           (Inl e, s1) \<Rightarrow> (Raised e, s1)
         | (Inr rid, s1) \<Rightarrow>
             (let req1 = req\<lparr>req_id := rid\<rparr>;
                  s2 = queue_put (Some req1) s1
              in case wait_for (ready_or_shutdown rid) s2 sched of
                   (False, s3) \<Rightarrow> (Blocked, s3)
                 | (True, s3) \<Rightarrow> blocking_send_woken s3 rid req1)))"

text \<open>
  \<^verbatim>\<open>if callback: self.asyncio_waiting_data[req_id] = callback\<close>. The argument is
  \<open>None\<close> or an object; the entry is written when the object's truth value is true.
\<close>

definition register_callback :: "int \<Rightarrow> callback_object option \<Rightarrow> DataClient \<Rightarrow> DataClient" where
  "register_callback rid callback s =
     (case callback of
        Some cb \<Rightarrow>
          (if truth_value cb
           then s\<lparr>asyncio_waiting_data := (asyncio_waiting_data s)(rid \<mapsto> on_call cb)\<rparr>
           else s)
      | None \<Rightarrow> s)"

text \<open>
  \<^verbatim>\<open>_async_send\<close>, statement by statement: how the call ends, and the state of the
  object after each statement it executes, in execution order.
\<close>

definition async_send_exec :: "DataClient \<Rightarrow> DataRequest \<Rightarrow> callback_object option \<Rightarrow> (error + unit) \<times> DataClient list" where
  "async_send_exec s req callback =
     (if in_shutdown s
      then (Inl (ConnectionError terminated_msg), [disconnect s])
      else
        (case next_id s of
           (Inl e, s1) \<Rightarrow> (Inl e, [s1])
         | (Inr rid, s1) \<Rightarrow>
             (let req1 = req\<lparr>req_id := rid\<rparr>;
                  s2 = register_callback rid callback s1;
                  s3 = queue_put (Some req1) s2
              in (Inr (), [s1, s2, s3]))))"

text \<open>The method as its callers see it: how it ends, and the state it leaves.\<close>

definition async_send :: "DataClient \<Rightarrow> DataRequest \<Rightarrow> callback_object option \<Rightarrow> (error + unit) \<times> DataClient" where
  "async_send s req callback =
     (case async_send_exec s req callback of (res, states) \<Rightarrow> (res, last states))"

subsection \<open>Callbacks used in the examples\<close>

definition returning_callback :: ResponseCallable where
  "returning_callback response = Returns"

definition base_exception_callback :: ResponseCallable where
  "base_exception_callback response = RaisesBaseException"

text \<open>An object that can be called but whose truth value is false.\<close>

definition falsy_callback :: callback_object where
  "falsy_callback = \<lparr>truth_value = False, on_call = returning_callback\<rparr>"

subsection \<open>Counting callback calls\<close>

text \<open>How often the effects record a call of the callback popped for an identifier.\<close>

fun is_invoke :: "int \<Rightarrow> effect \<Rightarrow> bool" where
  "is_invoke rid (Invoke k response) = (k = rid)"
| "is_invoke rid e = False"

definition invocations :: "int \<Rightarrow> DataClient \<Rightarrow> nat" where
  "invocations rid s = length (filter (is_invoke rid) (effects s))"

text \<open>Whether a callback is waiting under an identifier, as a number.\<close>

definition registered :: "int \<Rightarrow> DataClient \<Rightarrow> nat" where
  "registered rid s = (if asyncio_waiting_data s rid \<noteq> None then 1 else 0)"

section \<open>Properties\<close>

subsection \<open>The identifier allocator\<close>

text \<open>
  The counter starts at 0 and only \<^verbatim>\<open>_next_id\<close> writes it, so it stays between 0 and
  \<^verbatim>\<open>INT32_MAX\<close>: the bound holds at construction and every call keeps it.
\<close>

lemma init_client_counter: "0 \<le> self_req_id init_client \<and> self_req_id init_client \<le> INT32_MAX"
  by (simp add: init_client_def INT32_MAX_def)

lemma next_id_keeps_counter:
  "0 \<le> self_req_id s \<Longrightarrow> self_req_id s \<le> INT32_MAX \<Longrightarrow>
   0 \<le> self_req_id (snd (next_id s)) \<and> self_req_id (snd (next_id s)) \<le> INT32_MAX"
  by (auto simp: next_id_def INT32_MAX_def Let_def)

lemma counter_untouched:
  "self_req_id (snd (handle_response s r)) = self_req_id s"
  "self_req_id (on_rpc_error code s) = self_req_id s"
  "self_req_id (close s) = self_req_id s"
  "self_req_id (disconnect s) = self_req_id s"
  "self_req_id (queue_put x s) = self_req_id s"
  "self_req_id (register_callback rid callback s) = self_req_id s"
  "self_req_id (snd (blocking_send_woken s rid req)) = self_req_id s"
  by (simp_all add: handle_response_def on_rpc_error_def close_def disconnect_def queue_put_def
      register_callback_def blocking_send_woken_def emit_def Let_def
      split: option.splits cb_outcome.splits)

lemma next_id_step:
  assumes "self_req_id s = int c" "c \<le> nat INT32_MAX"
  shows "next_id s = (Inr (int (c mod nat INT32_MAX) + 1), s\<lparr>self_req_id := int (c mod nat INT32_MAX) + 1\<rparr>)"
  using assms by (auto simp: next_id_def INT32_MAX_def Let_def)

lemma next_ids_from:
  "self_req_id s = int c \<Longrightarrow> c \<le> nat INT32_MAX \<Longrightarrow>
   \<exists>s'. next_ids n s = (Inr (map (\<lambda>k. int ((c + k) mod nat INT32_MAX) + 1) [0..<n]), s')"
proof (induction n arbitrary: s c)
  case 0 then show ?case by simp
next
  case (Suc n)
  let ?M = "nat INT32_MAX"
  let ?c' = "c mod ?M + 1"
  let ?s1 = "s\<lparr>self_req_id := int (c mod ?M) + 1\<rparr>"
  have st: "next_id s = (Inr (int (c mod ?M) + 1), ?s1)"
    using Suc.prems by (rule next_id_step)
  have M: "0 < ?M" by (simp add: INT32_MAX_def)
  have c1: "self_req_id ?s1 = int ?c'" by simp
  have c2: "?c' \<le> ?M" using M by (simp add: Suc_leI)
  from Suc.IH[OF c1 c2] obtain s' where
    ih: "next_ids n ?s1 = (Inr (map (\<lambda>k. int ((?c' + k) mod ?M) + 1) [0..<n]), s')" by blast
  have e: "\<And>k. (?c' + k) mod ?M = (c + Suc k) mod ?M"
    by (metis add_Suc_right add_Suc_shift mod_add_left_eq Suc_eq_plus1)
  have m: "map (\<lambda>k. int ((c + k) mod ?M) + 1) [0..<Suc n]
         = (int (c mod ?M) + 1) # map (\<lambda>k. int ((?c' + k) mod ?M) + 1) [0..<n]"
    unfolding e by (simp add: map_upt_Suc del: upt_Suc)
  show ?case unfolding m using st ih by simp
qed

lemma mod_distinct:
  fixes i j M :: nat assumes "i < j" "j - i < M" shows "i mod M \<noteq> j mod M"
proof
  assume "i mod M = j mod M"
  then have "M dvd (j - i)" using assms(1)
    by (metis mod_eq_dvd_iff_nat less_imp_le_nat)
  then show False using assms by (auto dest: dvd_imp_le)
qed

text \<open>
  C8: with the counter in the range it has in every run (0 up to \<^verbatim>\<open>INT32_MAX\<close>),
  \<^verbatim>\<open>_next_id\<close> does not raise, the identifier it returns is not 0 and lies in
  \<open>1 .. 2^31 - 1\<close>, and from the maximum \<open>2^31 - 1\<close> the next identifier is 1.
\<close>

theorem next_id_in_range:
  assumes "0 \<le> self_req_id s" and "self_req_id s \<le> INT32_MAX"
  shows "\<exists>r. next_id s = (Inr r, s\<lparr>self_req_id := r\<rparr>) \<and> r \<noteq> 0 \<and> 1 \<le> r \<and> r \<le> 2 ^ 31 - 1
           \<and> r = (if self_req_id s = 2 ^ 31 - 1 then 1 else self_req_id s + 1)"
  using assms by (auto simp: next_id_def INT32_MAX_def Let_def)

theorem next_id_in_range_witness:
  "next_id (init_client\<lparr>self_req_id := 2147483647\<rparr>) = (Inr 1, init_client\<lparr>self_req_id := 1\<rparr>)"
  using next_id_in_range [of "init_client\<lparr>self_req_id := 2147483647\<rparr>"]
  by (simp add: INT32_MAX_def)

text \<open>
  C10: on a freshly constructed client, \<open>n\<close> successive calls of \<^verbatim>\<open>_next_id\<close> all
  return; the call number \<open>k + 1\<close> returns \<open>(k mod (2^31 - 1)) + 1\<close>; an identifier below the
  maximum is followed by its successor; any two calls less than \<open>2^31 - 1\<close> apart return
  different identifiers.
\<close>

theorem next_id_sequence:
  "\<exists>ids s'. next_ids n init_client = (Inr ids, s') \<and> length ids = n
      \<and> (\<forall>k<n. ids ! k = int (k mod (2 ^ 31 - 1)) + 1)
      \<and> (\<forall>k. Suc k < n \<and> ids ! k \<noteq> 2 ^ 31 - 1 \<longrightarrow> ids ! Suc k = ids ! k + 1)
      \<and> (\<forall>i j. i < j \<and> j < n \<and> j - i < 2 ^ 31 - 1 \<longrightarrow> ids ! i \<noteq> ids ! j)"
proof -
  let ?M = "nat INT32_MAX"
  have M: "?M = 2 ^ 31 - 1" by (simp add: INT32_MAX_def)
  define ids where "ids = map (\<lambda>k. int ((0 + k) mod ?M) + 1) [0..<n]"
  have "self_req_id init_client = int 0" by (simp add: init_client_def)
  moreover have "(0::nat) \<le> ?M" by simp
  ultimately obtain s' where run: "next_ids n init_client = (Inr ids, s')"
    unfolding ids_def using next_ids_from by blast
  have len: "length ids = n" by (simp add: ids_def)
  have nth: "ids ! k = int (k mod ?M) + 1" if "k < n" for k
    using that by (simp add: ids_def)
  have succ: "ids ! Suc k = ids ! k + 1" if "Suc k < n" "ids ! k \<noteq> 2 ^ 31 - 1" for k
  proof -
    have a: "ids ! k = int (k mod ?M) + 1" and b: "ids ! Suc k = int (Suc k mod ?M) + 1"
      using that(1) by (simp_all add: nth)
    from that(2) a have "Suc (k mod ?M) \<noteq> ?M" unfolding M by auto
    then have "Suc k mod ?M = Suc (k mod ?M)" by (simp add: mod_Suc)
    with a b show ?thesis by simp
  qed
  have dist: "ids ! i \<noteq> ids ! j" if "i < j" "j < n" "j - i < 2 ^ 31 - 1" for i j
  proof -
    have "i mod ?M \<noteq> j mod ?M" using that(1,3) unfolding M by (intro mod_distinct) auto
    then show ?thesis using that by (simp add: nth)
  qed
  show ?thesis using run len nth succ dist unfolding M by blast
qed

theorem next_id_sequence_witness:
  "fst (next_ids 3 init_client) = Inr [1, 2, 3]"
proof -
  obtain ids s' where r: "next_ids 3 init_client = (Inr ids, s')" and l: "length ids = 3"
    and n: "\<forall>k<3. ids ! k = int (k mod (2 ^ 31 - 1)) + 1"
    using next_id_sequence [of 3] by blast
  have "ids ! 0 = 1" "ids ! 1 = 2" "ids ! 2 = 3" using n by simp_all
  then have "ids = [1, 2, 3]" using l by (intro nth_equalityI) (auto simp: less_Suc_eq numeral_3_eq_3 numeral_2_eq_2)
  then show ?thesis using r by simp
qed

subsection \<open>The blocking call\<close>

lemma wait_for_pred: "fst (wait_for p s es) = p (snd (wait_for p s es))"
  by (induction es arbitrary: s) simp_all

text \<open>
  C1: when \<^verbatim>\<open>_blocking_send\<close> returns a value, the request was stamped with the
  identifier \<^verbatim>\<open>_next_id\<close> gave and put on the queue, the value is the entry of
  \<^verbatim>\<open>ready_data\<close> under that identifier in the state in which the caller woke, and the
  state it leaves is that state with the entry deleted: the identifier is no longer a key,
  so a caller waiting for the same identifier finds its predicate false and gets nothing.
\<close>

theorem blocking_send_returns_ready_entry:
  assumes "blocking_send s req sched = (Returned data, s')"
  shows "\<exists>rid s1 sw.
           next_id s = (Inr rid, s1)
         \<and> wait_for (ready_or_shutdown rid) (queue_put (Some (req\<lparr>req_id := rid\<rparr>)) s1) sched
             = (True, sw)
         \<and> ready_data sw rid = Some data
         \<and> s' = sw\<lparr>ready_data := (ready_data sw)(rid := None)\<rparr>
         \<and> ready_data s' rid = None
         \<and> wait_for (ready_or_shutdown rid) s' [] = (False, s')"
proof -
  from assms have ns: "\<not> in_shutdown s"
    by (auto simp: blocking_send_def)
  obtain x s1 where n: "next_id s = (x, s1)" by (cases "next_id s")
  with assms ns obtain rid where x: "x = Inr rid"
    by (cases x) (auto simp: blocking_send_def)
  let ?s2 = "queue_put (Some (req\<lparr>req_id := rid\<rparr>)) s1"
  obtain w sw where w: "wait_for (ready_or_shutdown rid) ?s2 sched = (w, sw)"
    by (cases "wait_for (ready_or_shutdown rid) ?s2 sched")
  from assms ns n x w have wt: "w" and
    k: "blocking_send_woken sw rid (req\<lparr>req_id := rid\<rparr>) = (Returned data, s')"
    by (auto simp: blocking_send_def Let_def split: if_splits bool.splits)
  from k have nsw: "\<not> in_shutdown sw"
    by (auto simp: blocking_send_woken_def split: if_splits)
  from k nsw have rd: "ready_data sw rid = Some data"
    and s': "s' = sw\<lparr>ready_data := (ready_data sw)(rid := None)\<rparr>"
    by (auto simp: blocking_send_woken_def split: option.splits)
  from s' nsw have "wait_for (ready_or_shutdown rid) s' [] = (False, s')"
    by (simp add: ready_or_shutdown_def)
  with n x w wt rd s' show ?thesis by auto
qed

theorem blocking_send_returns_ready_entry_witness:
  "fst (blocking_send init_client \<lparr>req_id = 0, req_payload = ''init''\<rparr>
          [\<lambda>t. snd (handle_response t \<lparr>resp_req_id = 1, resp_payload = ''ok''\<rparr>)])
     = Returned \<lparr>resp_req_id = 1, resp_payload = ''ok''\<rparr>
   \<and> ready_data (snd (blocking_send init_client \<lparr>req_id = 0, req_payload = ''init''\<rparr>
          [\<lambda>t. snd (handle_response t \<lparr>resp_req_id = 1, resp_payload = ''ok''\<rparr>)])) 1 = None"
proof -
  let ?s' = "init_client\<lparr>request_queue := [Some \<lparr>req_id = 1, req_payload = ''init''\<rparr>],
                  self_req_id := 1, effects := effects init_client @ [NotifyAll]\<rparr>"
  have run: "blocking_send init_client \<lparr>req_id = 0, req_payload = ''init''\<rparr>
     [\<lambda>t. snd (handle_response t \<lparr>resp_req_id = 1, resp_payload = ''ok''\<rparr>)]
   = (Returned \<lparr>resp_req_id = 1, resp_payload = ''ok''\<rparr>, ?s')"
    by (simp add: blocking_send_def next_id_def init_client_def INT32_MAX_def Let_def
        queue_put_def ready_or_shutdown_def handle_response_def emit_def blocking_send_woken_def)
  from blocking_send_returns_ready_entry [OF run] obtain rid s1
    where a: "next_id init_client = (Inr rid, s1)" and b: "ready_data ?s' rid = None"
    by blast
  from a have "rid = 1"
    by (simp add: next_id_def init_client_def INT32_MAX_def Let_def)
  with b run show ?thesis by simp
qed

text \<open>
  C2: with \<^verbatim>\<open>_in_shutdown\<close> already true, \<^verbatim>\<open>_blocking_send\<close> and \<^verbatim>\<open>_async_send\<close>
  raise \<^verbatim>\<open>ConnectionError\<close> at once, whatever the other threads would do later; the only
  thing they do before raising is to call \<^verbatim>\<open>disconnect\<close>: the counter, the request queue
  and both tables are as they were.
\<close>

theorem send_after_shutdown_raises:
  assumes "in_shutdown s"
  shows "blocking_send s req sched = (Raised (ConnectionError terminated_msg), disconnect s)
       \<and> async_send s req callback = (Inl (ConnectionError terminated_msg), disconnect s)
       \<and> disconnect s = s\<lparr>effects := effects s @ [Disconnect]\<rparr>
       \<and> self_req_id (disconnect s) = self_req_id s
       \<and> request_queue (disconnect s) = request_queue s
       \<and> ready_data (disconnect s) = ready_data s
       \<and> asyncio_waiting_data (disconnect s) = asyncio_waiting_data s"
  using assms
  by (simp add: blocking_send_def async_send_def async_send_exec_def disconnect_def emit_def)

theorem send_after_shutdown_raises_witness:
  "blocking_send (init_client\<lparr>in_shutdown := True\<rparr>) \<lparr>req_id = 0, req_payload = ''get''\<rparr> []
     = (Raised (ConnectionError terminated_msg),
        init_client\<lparr>in_shutdown := True, effects := effects init_client @ [Disconnect]\<rparr>)
   \<and> async_send (init_client\<lparr>in_shutdown := True\<rparr>) \<lparr>req_id = 0, req_payload = ''get''\<rparr> None
     = (Inl (ConnectionError terminated_msg),
        init_client\<lparr>in_shutdown := True, effects := effects init_client @ [Disconnect]\<rparr>)"
  using send_after_shutdown_raises [of "init_client\<lparr>in_shutdown := True\<rparr>"
      "\<lparr>req_id = 0, req_payload = ''get''\<rparr>" "[]" None]
  by simp

text \<open>
  C5: a blocking call that was not rejected, whose request was stamped and enqueued, and
  that wakes in a state with \<^verbatim>\<open>_in_shutdown\<close> set, calls \<^verbatim>\<open>disconnect\<close> and then raises a
  \<^verbatim>\<open>ConnectionError\<close> whose message interpolates that stamped request.
\<close>

theorem blocking_send_shutdown_in_flight:
  assumes "\<not> in_shutdown s"
    and "next_id s = (Inr rid, s1)"
    and "wait_for (ready_or_shutdown rid) (queue_put (Some (req\<lparr>req_id := rid\<rparr>)) s1) sched = (w, sw)"
    and "in_shutdown sw"
  shows "blocking_send s req sched
           = (Raised (ConnectionError (in_flight_msg (req\<lparr>req_id := rid\<rparr>))), disconnect sw)
       \<and> ReqFrag (req\<lparr>req_id := rid\<rparr>) \<in> set (in_flight_msg (req\<lparr>req_id := rid\<rparr>))
       \<and> Some (req\<lparr>req_id := rid\<rparr>) \<in> set (request_queue (queue_put (Some (req\<lparr>req_id := rid\<rparr>)) s1))
       \<and> effects (disconnect sw) = effects sw @ [Disconnect]"
proof -
  have "w = ready_or_shutdown rid sw"
    using wait_for_pred [of "ready_or_shutdown rid" "queue_put (Some (req\<lparr>req_id := rid\<rparr>)) s1" sched]
      assms(3) by simp
  with assms(4) have "w" by (simp add: ready_or_shutdown_def)
  with assms show ?thesis
    by (simp add: blocking_send_def Let_def blocking_send_woken_def in_flight_msg_def
        disconnect_def emit_def queue_put_def)
qed

theorem blocking_send_shutdown_in_flight_witness:
  "blocking_send init_client \<lparr>req_id = 0, req_payload = ''put''\<rparr>
     [\<lambda>t. snd (data_main t [] (RpcError UNAVAILABLE))]
   = (Raised (ConnectionError (in_flight_msg \<lparr>req_id = 1, req_payload = ''put''\<rparr>)),
      init_client\<lparr>request_queue := [Some \<lparr>req_id = 1, req_payload = ''put''\<rparr>],
                  self_req_id := 1, in_shutdown := True,
                  effects := effects init_client @
                    [NotifyAll, Log INFO [Lit ''Server disconnected from data channel''], Disconnect]\<rparr>)"
proof -
  let ?sw = "init_client\<lparr>request_queue := [Some \<lparr>req_id = 1, req_payload = ''put''\<rparr>],
                  self_req_id := 1, in_shutdown := True,
                  effects := effects init_client @
                    [NotifyAll, Log INFO [Lit ''Server disconnected from data channel'']]\<rparr>"
  have a: "\<not> in_shutdown init_client" by (simp add: init_client_def)
  have b: "next_id init_client = (Inr 1, init_client\<lparr>self_req_id := 1\<rparr>)"
    by (simp add: next_id_def init_client_def INT32_MAX_def Let_def)
  have c: "wait_for (ready_or_shutdown 1)
            (queue_put (Some (\<lparr>req_id = 0, req_payload = ''put''\<rparr>\<lparr>req_id := 1\<rparr>))
               (init_client\<lparr>self_req_id := 1\<rparr>))
            [\<lambda>t. snd (data_main t [] (RpcError UNAVAILABLE))] = (True, ?sw)"
    by (simp add: init_client_def queue_put_def ready_or_shutdown_def data_main_def
        on_rpc_error_def emit_def Let_def)
  have d: "in_shutdown ?sw" by simp
  from blocking_send_shutdown_in_flight [OF a b c d] show ?thesis
    by (simp add: disconnect_def emit_def)
qed

subsection \<open>The asynchronous call\<close>

text \<open>
  C6, amended: a call of \<^verbatim>\<open>_async_send\<close> that is given a callback whose truth value is
  true and that is not rejected passes through three states, in this order: the identifier
  is allocated; the callback is stored under it, with the queue as it was before the call;
  the stamped request is appended to the queue. Hence every state of the call whose queue
  differs from the initial one already has the callback in the table.
\<close>

theorem async_send_registers_before_enqueue:
  assumes "async_send_exec s req (Some cb) = (Inr (), states)" and "truth_value cb"
  shows "\<exists>rid s1.
           next_id s = (Inr rid, s1)
         \<and> states
             = [s1,
                s1\<lparr>asyncio_waiting_data := (asyncio_waiting_data s1)(rid \<mapsto> on_call cb)\<rparr>,
                s1\<lparr>asyncio_waiting_data := (asyncio_waiting_data s1)(rid \<mapsto> on_call cb),
                   request_queue := request_queue s @ [Some (req\<lparr>req_id := rid\<rparr>)]\<rparr>]
         \<and> async_send s req (Some cb) = (Inr (), last states)
         \<and> request_queue s1 = request_queue s
         \<and> (\<forall>t \<in> set states.
               request_queue t \<noteq> request_queue s \<longrightarrow> asyncio_waiting_data t rid = Some (on_call cb))"
proof -
  from assms(1) have ns: "\<not> in_shutdown s"
    by (auto simp: async_send_exec_def)
  obtain x s1 where n: "next_id s = (x, s1)" by (cases "next_id s")
  with assms(1) ns obtain rid where x: "x = Inr rid"
    by (cases x) (auto simp: async_send_exec_def)
  have q: "request_queue s1 = request_queue s"
    using n by (auto simp: next_id_def Let_def split: if_splits)
  let ?s2 = "s1\<lparr>asyncio_waiting_data := (asyncio_waiting_data s1)(rid \<mapsto> on_call cb)\<rparr>"
  let ?s3 = "s1\<lparr>asyncio_waiting_data := (asyncio_waiting_data s1)(rid \<mapsto> on_call cb),
                request_queue := request_queue s @ [Some (req\<lparr>req_id := rid\<rparr>)]\<rparr>"
  have "async_send_exec s req (Some cb) = (Inr (), [s1, ?s2, ?s3])"
    using ns n x q assms(2)
    by (simp add: async_send_exec_def register_callback_def queue_put_def Let_def)
  with assms(1) have st: "states = [s1, ?s2, ?s3]" by simp
  have fin: "async_send s req (Some cb) = (Inr (), last states)"
    using assms(1) by (simp add: async_send_def)
  have inv: "\<forall>t \<in> set states.
               request_queue t \<noteq> request_queue s \<longrightarrow> asyncio_waiting_data t rid = Some (on_call cb)"
    unfolding st using q by simp
  from n x st fin q inv show ?thesis by blast
qed

theorem async_send_registers_before_enqueue_witness:
  "async_send_exec init_client \<lparr>req_id = 0, req_payload = ''get''\<rparr>
       (Some \<lparr>truth_value = True, on_call = returning_callback\<rparr>)
     = (Inr (),
        [init_client\<lparr>self_req_id := 1\<rparr>,
         init_client\<lparr>self_req_id := 1, asyncio_waiting_data := [1 \<mapsto> returning_callback]\<rparr>,
         init_client\<lparr>self_req_id := 1, asyncio_waiting_data := [1 \<mapsto> returning_callback],
                     request_queue := [Some \<lparr>req_id = 1, req_payload = ''get''\<rparr>]\<rparr>])
   \<and> async_send init_client \<lparr>req_id = 0, req_payload = ''get''\<rparr>
       (Some \<lparr>truth_value = True, on_call = returning_callback\<rparr>)
     = (Inr (),
        init_client\<lparr>self_req_id := 1, asyncio_waiting_data := [1 \<mapsto> returning_callback],
                    request_queue := [Some \<lparr>req_id = 1, req_payload = ''get''\<rparr>]\<rparr>)"
proof -
  let ?cb = "\<lparr>truth_value = True, on_call = returning_callback\<rparr>"
  let ?states = "[init_client\<lparr>self_req_id := 1\<rparr>,
         init_client\<lparr>self_req_id := 1, asyncio_waiting_data := [1 \<mapsto> returning_callback]\<rparr>,
         init_client\<lparr>self_req_id := 1, asyncio_waiting_data := [1 \<mapsto> returning_callback],
                     request_queue := [Some \<lparr>req_id = 1, req_payload = ''get''\<rparr>]\<rparr>]"
  have run: "async_send_exec init_client \<lparr>req_id = 0, req_payload = ''get''\<rparr> (Some ?cb)
      = (Inr (), ?states)"
    by (simp add: async_send_exec_def next_id_def init_client_def INT32_MAX_def
        Let_def register_callback_def queue_put_def)
  have tr: "truth_value ?cb" by simp
  from async_send_registers_before_enqueue [OF run tr]
  have "async_send init_client \<lparr>req_id = 0, req_payload = ''get''\<rparr> (Some ?cb)
      = (Inr (), last ?states)"
    by blast
  with run show ?thesis by simp
qed

text \<open>
  As C6 is written, for any callback that is not \<open>None\<close>, it fails: a callable object
  whose truth value is false is not \<open>None\<close>, and \<^verbatim>\<open>_async_send\<close> puts its request on
  the queue without ever storing it in \<^verbatim>\<open>asyncio_waiting_data\<close>.
\<close>

theorem async_send_falsy_callback_counterexample:
  "async_send_exec init_client \<lparr>req_id = 0, req_payload = ''get''\<rparr> (Some falsy_callback)
     = (Inr (),
        [init_client\<lparr>self_req_id := 1\<rparr>,
         init_client\<lparr>self_req_id := 1\<rparr>,
         init_client\<lparr>self_req_id := 1,
                     request_queue := [Some \<lparr>req_id = 1, req_payload = ''get''\<rparr>]\<rparr>])
   \<and> fst (async_send init_client \<lparr>req_id = 0, req_payload = ''get''\<rparr> (Some falsy_callback)) = Inr ()
   \<and> request_queue (snd (async_send init_client \<lparr>req_id = 0, req_payload = ''get''\<rparr> (Some falsy_callback)))
       = [Some \<lparr>req_id = 1, req_payload = ''get''\<rparr>]
   \<and> asyncio_waiting_data
       (snd (async_send init_client \<lparr>req_id = 0, req_payload = ''get''\<rparr> (Some falsy_callback))) 1 = None"
  by (simp add: async_send_def async_send_exec_def next_id_def init_client_def INT32_MAX_def
      Let_def register_callback_def queue_put_def falsy_callback_def)

subsection \<open>The read loop\<close>

lemma handle_response_in_shutdown: "in_shutdown (snd (handle_response s r)) = in_shutdown s"
  by (simp add: handle_response_def emit_def Let_def split: option.splits cb_outcome.splits)

lemma data_loop_in_shutdown: "in_shutdown (snd (data_loop s rs)) = in_shutdown s"
proof (induction rs arbitrary: s)
  case Nil then show ?case by simp
next
  case (Cons r rs)
  obtain c s1 where h: "handle_response s r = (c, s1)" by (cases "handle_response s r")
  then have "in_shutdown s1 = in_shutdown s"
    using handle_response_in_shutdown [of s r] by simp
  with h Cons.IH [of s1] show ?case by (cases c) simp_all
qed

lemma data_main_exhausted_in_shutdown:
  "in_shutdown (snd (data_main s rs StreamExhausted)) = in_shutdown s"
  using data_loop_in_shutdown [of s rs]
  by (cases "data_loop s rs") (simp add: data_main_def split: completion.splits)

lemma data_main_rpc_error:
  assumes "data_loop s rs = (Completed, s1)"
  shows "\<exists>m. data_main s rs (RpcError code)
             = (Completed, s1\<lparr>in_shutdown := True, effects := effects s1 @ [NotifyAll, m]\<rparr>)"
  using assms by (auto simp: data_main_def on_rpc_error_def emit_def Let_def)

text \<open>
  C3: the read loop also ends when the response iterator is exhausted, and then no
  handler runs. On a fresh client whose stream ends so, \<^verbatim>\<open>_data_main\<close> returns with
  \<^verbatim>\<open>_in_shutdown\<close> still false and without \<^verbatim>\<open>notify_all\<close>, and a caller blocked in
  \<^verbatim>\<open>_blocking_send\<close> stays blocked; ending by \<^verbatim>\<open>RpcError\<close> does set the flag.
\<close>

theorem data_main_exhausted_stream_leaves_waiter_blocked:
  "data_main init_client [] StreamExhausted = (Completed, init_client)
   \<and> \<not> in_shutdown (snd (data_main init_client [] StreamExhausted))
   \<and> NotifyAll \<notin> set (effects (snd (data_main init_client [] StreamExhausted)))
   \<and> fst (blocking_send init_client \<lparr>req_id = 0, req_payload = ''get''\<rparr>
            [\<lambda>t. snd (data_main t [] StreamExhausted)]) = Blocked
   \<and> in_shutdown (snd (data_main init_client [] (RpcError CANCELLED)))"
  by (simp add: data_main_def init_client_def blocking_send_def next_id_def INT32_MAX_def
      Let_def queue_put_def ready_or_shutdown_def on_rpc_error_def emit_def)

text \<open>
  The loop only ever deletes from \<^verbatim>\<open>asyncio_waiting_data\<close>, and calls a callback exactly
  when it deletes one: calls made plus entry still present is constant.
\<close>

lemma handle_response_invocations:
  "invocations rid (snd (handle_response s r)) + registered rid (snd (handle_response s r))
     = invocations rid s + registered rid s"
  by (cases "asyncio_waiting_data s (resp_req_id r)"; cases "resp_req_id r = rid")
     (auto simp: handle_response_def emit_def Let_def invocations_def registered_def
        split: cb_outcome.splits)

lemma data_loop_invocations:
  "invocations rid (snd (data_loop s rs)) + registered rid (snd (data_loop s rs))
     = invocations rid s + registered rid s"
proof (induction rs arbitrary: s)
  case Nil
  then show ?case by simp
next
  case (Cons r rs)
  obtain c s1 where h: "handle_response s r = (c, s1)" by (cases "handle_response s r")
  have step: "invocations rid s1 + registered rid s1 = invocations rid s + registered rid s"
    using handle_response_invocations [of rid s r] h by simp
  show ?case
  proof (cases c)
    case Completed
    with h have "data_loop s (r # rs) = data_loop s1 rs" by simp
    with Cons.IH [of s1] step show ?thesis by simp
  next
    case Uncaught
    with h have "data_loop s (r # rs) = (Uncaught, s1)" by simp
    with step show ?thesis by simp
  qed
qed

text \<open>
  C4: what the loop body does with a response is decided by its \<^verbatim>\<open>req_id\<close>. With 0 it
  only logs. With a key of \<^verbatim>\<open>asyncio_waiting_data\<close> it deletes that entry and invokes the
  callback once, leaving \<^verbatim>\<open>ready_data\<close> alone. Otherwise it stores the response in
  \<^verbatim>\<open>ready_data\<close> under the identifier and calls \<^verbatim>\<open>notify_all\<close>. Over a whole stream,
  the calls of the callback of an identifier and its presence in the table add up to what
  they were: a registered callback is called at most once.
\<close>

theorem handle_response_three_cases:
  "(resp_req_id r = 0 \<longrightarrow>
      handle_response s r
        = (Completed, s\<lparr>effects := effects s @ [Log DEBUG [Lit ''Got unawaited response '', RespFrag r]]\<rparr>))
   \<and> (resp_req_id r \<noteq> 0 \<and> asyncio_waiting_data s (resp_req_id r) = Some cb \<longrightarrow>
        fst (handle_response s r) = (if cb r = RaisesBaseException then Uncaught else Completed)
      \<and> snd (handle_response s r)
          = s\<lparr>asyncio_waiting_data := (asyncio_waiting_data s)(resp_req_id r := None),
               effects := effects s @ Invoke (resp_req_id r) r
                  # (if cb r = RaisesException then [Log EXCEPTION [Lit ''Callback error:'']] else [])\<rparr>
      \<and> asyncio_waiting_data (snd (handle_response s r)) (resp_req_id r) = None
      \<and> ready_data (snd (handle_response s r)) = ready_data s)
   \<and> (resp_req_id r \<noteq> 0 \<and> asyncio_waiting_data s (resp_req_id r) = None \<longrightarrow>
        handle_response s r
          = (Completed, s\<lparr>ready_data := (ready_data s)(resp_req_id r \<mapsto> r),
                            effects := effects s @ [NotifyAll]\<rparr>))
   \<and> invocations rid (snd (data_loop s rs)) + registered rid (snd (data_loop s rs))
        = invocations rid s + registered rid s"
proof (intro conjI impI)
  assume "resp_req_id r = 0"
  then show "handle_response s r
        = (Completed, s\<lparr>effects := effects s @ [Log DEBUG [Lit ''Got unawaited response '', RespFrag r]]\<rparr>)"
    by (simp add: handle_response_def emit_def)
next
  assume a: "resp_req_id r \<noteq> 0 \<and> asyncio_waiting_data s (resp_req_id r) = Some cb"
  then show "fst (handle_response s r) = (if cb r = RaisesBaseException then Uncaught else Completed)"
    by (cases "cb r") (simp_all add: handle_response_def emit_def Let_def)
  from a show "snd (handle_response s r)
          = s\<lparr>asyncio_waiting_data := (asyncio_waiting_data s)(resp_req_id r := None),
               effects := effects s @ Invoke (resp_req_id r) r
                  # (if cb r = RaisesException then [Log EXCEPTION [Lit ''Callback error:'']] else [])\<rparr>"
    by (cases "cb r") (simp_all add: handle_response_def emit_def Let_def)
  from a show "asyncio_waiting_data (snd (handle_response s r)) (resp_req_id r) = None"
    by (cases "cb r") (simp_all add: handle_response_def emit_def Let_def)
  from a show "ready_data (snd (handle_response s r)) = ready_data s"
    by (cases "cb r") (simp_all add: handle_response_def emit_def Let_def)
next
  assume "resp_req_id r \<noteq> 0 \<and> asyncio_waiting_data s (resp_req_id r) = None"
  then show "handle_response s r
          = (Completed, s\<lparr>ready_data := (ready_data s)(resp_req_id r \<mapsto> r),
                            effects := effects s @ [NotifyAll]\<rparr>)"
    by (simp add: handle_response_def emit_def)
next
  show "invocations rid (snd (data_loop s rs)) + registered rid (snd (data_loop s rs))
        = invocations rid s + registered rid s"
    by (rule data_loop_invocations)
qed

theorem handle_response_three_cases_witness:
  "handle_response init_client \<lparr>resp_req_id = 0, resp_payload = ''ack''\<rparr>
     = (Completed, init_client\<lparr>effects := effects init_client @
          [Log DEBUG [Lit ''Got unawaited response '', RespFrag \<lparr>resp_req_id = 0, resp_payload = ''ack''\<rparr>]]\<rparr>)
   \<and> handle_response (init_client\<lparr>asyncio_waiting_data := [7 \<mapsto> (\<lambda>_. Returns)]\<rparr>)
        \<lparr>resp_req_id = 7, resp_payload = ''obj''\<rparr>
     = (Completed, init_client\<lparr>asyncio_waiting_data := [7 \<mapsto> (\<lambda>_. Returns)](7 := None),
          effects := effects init_client @ [Invoke 7 \<lparr>resp_req_id = 7, resp_payload = ''obj''\<rparr>]\<rparr>)
   \<and> handle_response init_client \<lparr>resp_req_id = 7, resp_payload = ''obj''\<rparr>
     = (Completed, init_client\<lparr>ready_data := [7 \<mapsto> \<lparr>resp_req_id = 7, resp_payload = ''obj''\<rparr>],
          effects := effects init_client @ [NotifyAll]\<rparr>)"
proof -
  have a: "resp_req_id \<lparr>resp_req_id = 0, resp_payload = ''ack''\<rparr> = 0" by simp
  have b: "resp_req_id \<lparr>resp_req_id = 7, resp_payload = ''obj''\<rparr> \<noteq> 0
      \<and> asyncio_waiting_data (init_client\<lparr>asyncio_waiting_data := [7 \<mapsto> (\<lambda>_. Returns)]\<rparr>)
          (resp_req_id \<lparr>resp_req_id = 7, resp_payload = ''obj''\<rparr>) = Some (\<lambda>_. Returns)"
    by simp
  have c: "resp_req_id \<lparr>resp_req_id = 7, resp_payload = ''obj''\<rparr> \<noteq> 0
      \<and> asyncio_waiting_data init_client (resp_req_id \<lparr>resp_req_id = 7, resp_payload = ''obj''\<rparr>) = None"
    by (simp add: init_client_def)
  have 1: "handle_response init_client \<lparr>resp_req_id = 0, resp_payload = ''ack''\<rparr>
     = (Completed, init_client\<lparr>effects := effects init_client @
          [Log DEBUG [Lit ''Got unawaited response '', RespFrag \<lparr>resp_req_id = 0, resp_payload = ''ack''\<rparr>]]\<rparr>)"
    using handle_response_three_cases [of "\<lparr>resp_req_id = 0, resp_payload = ''ack''\<rparr>" init_client]
      a by blast
  have 2: "handle_response (init_client\<lparr>asyncio_waiting_data := [7 \<mapsto> (\<lambda>_. Returns)]\<rparr>)
        \<lparr>resp_req_id = 7, resp_payload = ''obj''\<rparr>
     = (Completed, init_client\<lparr>asyncio_waiting_data := [7 \<mapsto> (\<lambda>_. Returns)](7 := None),
          effects := effects init_client @ [Invoke 7 \<lparr>resp_req_id = 7, resp_payload = ''obj''\<rparr>]\<rparr>)"
    using handle_response_three_cases [of "\<lparr>resp_req_id = 7, resp_payload = ''obj''\<rparr>"
        "init_client\<lparr>asyncio_waiting_data := [7 \<mapsto> (\<lambda>_. Returns)]\<rparr>" "\<lambda>_. Returns"] b
    by (simp add: prod_eq_iff)
  have 3: "handle_response init_client \<lparr>resp_req_id = 7, resp_payload = ''obj''\<rparr>
     = (Completed, init_client\<lparr>ready_data := [7 \<mapsto> \<lparr>resp_req_id = 7, resp_payload = ''obj''\<rparr>],
          effects := effects init_client @ [NotifyAll]\<rparr>)"
    using handle_response_three_cases [of "\<lparr>resp_req_id = 7, resp_payload = ''obj''\<rparr>" init_client] c
    by (simp add: init_client_def)
  from 1 2 3 show ?thesis by blast
qed

text \<open>
  The loop never reads the record of effects: started with another record, it takes the
  same path and appends the same effects.
\<close>

lemma handle_response_frame:
  "\<exists>c t d. \<forall>es. handle_response (s\<lparr>effects := es\<rparr>) r = (c, t\<lparr>effects := es @ d\<rparr>)"
proof (cases "resp_req_id r = 0")
  case True
  then have "\<forall>es. handle_response (s\<lparr>effects := es\<rparr>) r
      = (Completed, s\<lparr>effects := es @ [Log DEBUG [Lit ''Got unawaited response '', RespFrag r]]\<rparr>)"
    by (simp add: handle_response_def emit_def)
  then show ?thesis by blast
next
  case nz: False
  show ?thesis
  proof (cases "asyncio_waiting_data s (resp_req_id r)")
    case None
    with nz have "\<forall>es. handle_response (s\<lparr>effects := es\<rparr>) r
      = (Completed, (s\<lparr>ready_data := (ready_data s)(resp_req_id r \<mapsto> r)\<rparr>)\<lparr>effects := es @ [NotifyAll]\<rparr>)"
      by (simp add: handle_response_def emit_def)
    then show ?thesis by blast
  next
    case (Some cb)
    let ?t = "s\<lparr>asyncio_waiting_data := (asyncio_waiting_data s)(resp_req_id r := None)\<rparr>"
    let ?c = "if cb r = RaisesBaseException then Uncaught else Completed"
    let ?d = "Invoke (resp_req_id r) r
                # (if cb r = RaisesException then [Log EXCEPTION [Lit ''Callback error:'']] else [])"
    from nz Some have "\<forall>es. handle_response (s\<lparr>effects := es\<rparr>) r = (?c, ?t\<lparr>effects := es @ ?d\<rparr>)"
      by (cases "cb r") (simp_all add: handle_response_def emit_def Let_def)
    then show ?thesis by blast
  qed
qed

lemma data_loop_frame:
  "\<exists>c t d. \<forall>es. data_loop (s\<lparr>effects := es\<rparr>) rs = (c, t\<lparr>effects := es @ d\<rparr>)"
proof (induction rs arbitrary: s)
  case Nil
  have "\<forall>es. data_loop (s\<lparr>effects := es\<rparr>) [] = (Completed, s\<lparr>effects := es @ []\<rparr>)" by simp
  then show ?case by blast
next
  case (Cons r rs)
  obtain c t d where h: "\<And>es. handle_response (s\<lparr>effects := es\<rparr>) r = (c, t\<lparr>effects := es @ d\<rparr>)"
    using handle_response_frame [of s r] by blast
  show ?case
  proof (cases c)
    case Uncaught
    with h have "\<forall>es. data_loop (s\<lparr>effects := es\<rparr>) (r # rs) = (Uncaught, t\<lparr>effects := es @ d\<rparr>)"
      by simp
    then show ?thesis by blast
  next
    case Completed
    obtain c' t' d' where ih: "\<And>es. data_loop (t\<lparr>effects := es\<rparr>) rs = (c', t'\<lparr>effects := es @ d'\<rparr>)"
      using Cons.IH [of t] by blast
    have "\<forall>es. data_loop (s\<lparr>effects := es\<rparr>) (r # rs) = (c', t'\<lparr>effects := es @ (d @ d')\<rparr>)"
      using h Completed ih [of "es @ d" for es] by simp
    then show ?thesis by blast
  qed
qed

text \<open>
  C7, amended: when the callback registered for a response raises an instance of
  \<^verbatim>\<open>Exception\<close>, the loop body
  completes, having logged \<^verbatim>\<open>Callback error:\<close>, and the loop goes on with the remaining
  responses. It treats them exactly as it would have, had the callback returned: same
  completion, same final tables, same effects, apart from that one log entry.
\<close>

theorem callback_exception_is_contained:
  assumes "resp_req_id r \<noteq> 0"
    and "asyncio_waiting_data s (resp_req_id r) = Some cb"
    and "cb r = RaisesException"
  shows "handle_response s r
           = (Completed,
              s\<lparr>asyncio_waiting_data := (asyncio_waiting_data s)(resp_req_id r := None),
                 effects := effects s @ [Invoke (resp_req_id r) r, Log EXCEPTION [Lit ''Callback error:'']]\<rparr>)
       \<and> data_loop s (r # rest) = data_loop (snd (handle_response s r)) rest
       \<and> (\<exists>c t d.
             data_loop s (r # rest)
               = (c, t\<lparr>effects := effects s
                         @ [Invoke (resp_req_id r) r, Log EXCEPTION [Lit ''Callback error:'']] @ d\<rparr>)
           \<and> data_loop (s\<lparr>asyncio_waiting_data := (asyncio_waiting_data s)(resp_req_id r \<mapsto> (\<lambda>_. Returns))\<rparr>)
                 (r # rest)
               = (c, t\<lparr>effects := effects s @ [Invoke (resp_req_id r) r] @ d\<rparr>))"
proof -
  let ?rid = "resp_req_id r"
  let ?p = "s\<lparr>asyncio_waiting_data := (asyncio_waiting_data s)(?rid := None)\<rparr>"
  let ?log = "Log EXCEPTION [Lit ''Callback error:'']"
  have h: "handle_response s r = (Completed, ?p\<lparr>effects := effects s @ [Invoke ?rid r, ?log]\<rparr>)"
    using assms by (simp add: handle_response_def emit_def Let_def)
  have h': "handle_response (s\<lparr>asyncio_waiting_data := (asyncio_waiting_data s)(?rid \<mapsto> (\<lambda>_. Returns))\<rparr>) r
      = (Completed, ?p\<lparr>effects := effects s @ [Invoke ?rid r]\<rparr>)"
    using assms(1) by (simp add: handle_response_def emit_def Let_def)
  obtain c t d where f: "\<And>es. data_loop (?p\<lparr>effects := es\<rparr>) rest = (c, t\<lparr>effects := es @ d\<rparr>)"
    using data_loop_frame [of ?p rest] by blast
  have 1: "data_loop s (r # rest) = (c, t\<lparr>effects := effects s @ [Invoke ?rid r, ?log] @ d\<rparr>)"
    using h f [of "effects s @ [Invoke ?rid r, ?log]"] by simp
  have 2: "data_loop (s\<lparr>asyncio_waiting_data := (asyncio_waiting_data s)(?rid \<mapsto> (\<lambda>_. Returns))\<rparr>) (r # rest)
      = (c, t\<lparr>effects := effects s @ [Invoke ?rid r] @ d\<rparr>)"
    using h' f [of "effects s @ [Invoke ?rid r]"] by simp
  have 3: "data_loop s (r # rest) = data_loop (snd (handle_response s r)) rest"
    using h by simp
  from h 1 2 3 show ?thesis by blast
qed

theorem callback_exception_is_contained_witness:
  "data_loop (init_client\<lparr>asyncio_waiting_data := [7 \<mapsto> (\<lambda>_. RaisesException)]\<rparr>)
     [\<lparr>resp_req_id = 7, resp_payload = ''a''\<rparr>, \<lparr>resp_req_id = 8, resp_payload = ''b''\<rparr>]
   = (Completed,
      init_client\<lparr>asyncio_waiting_data := [7 \<mapsto> (\<lambda>_. RaisesException)](7 := None),
                  ready_data := [8 \<mapsto> \<lparr>resp_req_id = 8, resp_payload = ''b''\<rparr>],
                  effects := effects init_client @
                    [Invoke 7 \<lparr>resp_req_id = 7, resp_payload = ''a''\<rparr>,
                     Log EXCEPTION [Lit ''Callback error:''], NotifyAll]\<rparr>)"
proof -
  let ?s = "init_client\<lparr>asyncio_waiting_data := [7 \<mapsto> (\<lambda>_. RaisesException)]\<rparr>"
  let ?r = "\<lparr>resp_req_id = 7, resp_payload = ''a''\<rparr>"
  have a: "resp_req_id ?r \<noteq> 0" by simp
  have b: "asyncio_waiting_data ?s (resp_req_id ?r) = Some (\<lambda>_. RaisesException)" by simp
  have c: "(\<lambda>_. RaisesException) ?r = RaisesException" by simp
  from callback_exception_is_contained [OF a b c, of "[\<lparr>resp_req_id = 8, resp_payload = ''b''\<rparr>]"]
  have h: "handle_response ?s ?r
           = (Completed,
              ?s\<lparr>asyncio_waiting_data := (asyncio_waiting_data ?s)(resp_req_id ?r := None),
                 effects := effects ?s @ [Invoke (resp_req_id ?r) ?r, Log EXCEPTION [Lit ''Callback error:'']]\<rparr>)"
    and l: "data_loop ?s [?r, \<lparr>resp_req_id = 8, resp_payload = ''b''\<rparr>]
          = data_loop (snd (handle_response ?s ?r)) [\<lparr>resp_req_id = 8, resp_payload = ''b''\<rparr>]"
    by blast+
  show ?thesis unfolding l h
    by (simp add: handle_response_def emit_def init_client_def)
qed

text \<open>
  As C7 is written, for a callback that raises anything, it fails: \<^verbatim>\<open>except Exception\<close>
  does not catch a \<^verbatim>\<open>BaseException\<close> such as \<^verbatim>\<open>SystemExit\<close>. With such a callback
  under identifier 7, the response 7 ends the loop: nothing is logged, the exception leaves
  \<^verbatim>\<open>_data_main\<close> without the shutdown flag being set, and the response 8 that follows
  never reaches \<^verbatim>\<open>ready_data\<close>.
\<close>

theorem callback_base_exception_counterexample:
  "data_loop (init_client\<lparr>asyncio_waiting_data := [7 \<mapsto> base_exception_callback]\<rparr>)
     [\<lparr>resp_req_id = 7, resp_payload = ''a''\<rparr>, \<lparr>resp_req_id = 8, resp_payload = ''b''\<rparr>]
   = (Uncaught,
      init_client\<lparr>asyncio_waiting_data := [7 \<mapsto> base_exception_callback](7 := None),
                  effects := effects init_client @ [Invoke 7 \<lparr>resp_req_id = 7, resp_payload = ''a''\<rparr>]\<rparr>)
   \<and> ready_data (snd (data_loop (init_client\<lparr>asyncio_waiting_data := [7 \<mapsto> base_exception_callback]\<rparr>)
        [\<lparr>resp_req_id = 7, resp_payload = ''a''\<rparr>, \<lparr>resp_req_id = 8, resp_payload = ''b''\<rparr>])) 8 = None
   \<and> fst (data_main (init_client\<lparr>asyncio_waiting_data := [7 \<mapsto> base_exception_callback]\<rparr>)
        [\<lparr>resp_req_id = 7, resp_payload = ''a''\<rparr>, \<lparr>resp_req_id = 8, resp_payload = ''b''\<rparr>]
        (RpcError CANCELLED)) = Uncaught
   \<and> in_shutdown (snd (data_main (init_client\<lparr>asyncio_waiting_data := [7 \<mapsto> base_exception_callback]\<rparr>)
        [\<lparr>resp_req_id = 7, resp_payload = ''a''\<rparr>, \<lparr>resp_req_id = 8, resp_payload = ''b''\<rparr>]
        (RpcError CANCELLED))) = False"
  by (simp add: data_main_def handle_response_def emit_def init_client_def base_exception_callback_def)

subsection \<open>Closing\<close>

lemma request_iter_sentinel:
  "request_iter (q @ [None]) = (fst (request_iter q), True)"
  by (induction q rule: request_iter.induct) (simp_all split: prod.splits)

text \<open>
  C9: \<^verbatim>\<open>close\<close> sets the keepalive stop event, appends the sentinel to the request queue,
  on which the outbound iterator stops, and joins the data thread and then the keepalive
  thread. It leaves \<^verbatim>\<open>_in_shutdown\<close>, both tables and the counter as they were.
\<close>

theorem close_frame:
  "close s = s\<lparr>request_queue := request_queue s @ [None], stop_keepalive := True,
               effects := effects s @ [ThreadJoin DataThread, ThreadJoin KeepaliveThread]\<rparr>
   \<and> stop_keepalive (close s)
   \<and> snd (request_iter (request_queue (close s)))
   \<and> in_shutdown (close s) = in_shutdown s
   \<and> ready_data (close s) = ready_data s
   \<and> asyncio_waiting_data (close s) = asyncio_waiting_data s
   \<and> self_req_id (close s) = self_req_id s"
  by (simp add: close_def queue_put_def emit_def Let_def request_iter_sentinel)

end
